theory Spec2Isabelle
  imports Main
begin

section \<open>Data model\<close>

text \<open>
  The Mongoose schemas: an Account document carries a numeric balance and the array
  \<open>pendingTransactions\<close>; a Transaction document carries \<open>source\<close>, \<open>destination\<close>,
  \<open>value\<close>, \<open>state\<close> (one of six strings) and \<open>lastModified\<close>. Account ids are strings,
  transaction ids are the keys the store hands out, amounts and timestamps (milliseconds)
  are integers.
\<close>

datatype tx_state = Initial | Pending | Applied | Done | Canceling | Canceled

record account =
  balance :: int
  pendingTransactions :: "nat list"

record transaction =
  source :: string
  destination :: string
  tx_value :: int
  state :: tx_state
  lastModified :: int

text \<open>
  The store: the Account collection keyed by \<open>_id\<close>, the Transaction collection as the
  list of \<open>(_id, document)\<close> in insertion order, the clock that \<open>Date.now()\<close> and
  \<open>$currentDate\<close> read (an input of the environment, which stands still during one
  call), the lines written by \<open>console.error\<close>, and a schedule of store failures: every
  awaited store call consumes the head of \<open>faults\<close> and rejects with the message when the
  head is \<open>Some msg\<close>; an empty schedule means that no call fails.
\<close>

record db =
  accounts :: "string \<Rightarrow> account option"
  transactions :: "(nat \<times> transaction) list"
  clock :: int
  console :: "string list"
  faults :: "string option list"

section \<open>Asynchronous calls that may throw\<close>

type_synonym 'a io = "db \<Rightarrow> (string + 'a) \<times> db"

definition io_return :: "'a \<Rightarrow> 'a io" where
  "io_return x s = (Inr x, s)"

definition io_throw :: "string \<Rightarrow> 'a io" where
  "io_throw e s = (Inl e, s)"

definition io_bind :: "'a io \<Rightarrow> ('a \<Rightarrow> 'b io) \<Rightarrow> 'b io" where
  "io_bind m f s = (case m s of (Inl e, s') \<Rightarrow> (Inl e, s') | (Inr x, s') \<Rightarrow> f x s')"

definition io_catch :: "'a io \<Rightarrow> (string \<Rightarrow> 'a io) \<Rightarrow> 'a io" where
  "io_catch m h s = (case m s of (Inl e, s') \<Rightarrow> h e s' | (Inr x, s') \<Rightarrow> (Inr x, s'))"

definition await :: "(db \<Rightarrow> 'a \<times> db) \<Rightarrow> 'a io" where
  "await call s =
     (case faults s of
        [] \<Rightarrow> (case call s of (x, s') \<Rightarrow> (Inr x, s'))
      | None # fs \<Rightarrow> (case call (s\<lparr>faults := fs\<rparr>) of (x, s') \<Rightarrow> (Inr x, s'))
      | Some e # fs \<Rightarrow> (Inl e, s\<lparr>faults := fs\<rparr>))"

definition console_error :: "string \<Rightarrow> unit io" where
  "console_error line s = (Inr (), s\<lparr>console := console s @ [line]\<rparr>)"

section \<open>Store operations\<close>

text \<open>The update operators on the array field: \<open>$addToSet\<close> and \<open>$pull\<close>.\<close>

definition addToSet :: "nat \<Rightarrow> account \<Rightarrow> account" where
  "addToSet i a =
     (if i \<in> set (pendingTransactions a) then a
      else a\<lparr>pendingTransactions := pendingTransactions a @ [i]\<rparr>)"

definition pull :: "nat \<Rightarrow> account \<Rightarrow> account" where
  "pull i a = a\<lparr>pendingTransactions := removeAll i (pendingTransactions a)\<rparr>"

definition inc_balance :: "int \<Rightarrow> account \<Rightarrow> account" where
  "inc_balance d a = a\<lparr>balance := balance a + d\<rparr>"

text \<open>
  \<open>AccountModel.updateOne({_id: aid, ...filter}, update)\<close>: the update is applied to the
  document with that id when it exists and matches the filter. The returned
  \<open>modifiedCount\<close> counts the documents the update really changed (an \<open>$inc\<close> by zero
  changes none).
\<close>

definition AccountModel_updateOne ::
  "string \<Rightarrow> (account \<Rightarrow> bool) \<Rightarrow> (account \<Rightarrow> account) \<Rightarrow> db \<Rightarrow> nat \<times> db" where
  "AccountModel_updateOne aid flt upd s =
     (case accounts s aid of
        None \<Rightarrow> (0, s)
      | Some a \<Rightarrow>
          if flt a
          then (if upd a = a then 0 else 1, s\<lparr>accounts := (accounts s)(aid \<mapsto> upd a)\<rparr>)
          else (0, s))"


definition set_state :: "tx_state \<Rightarrow> int \<Rightarrow> transaction \<Rightarrow> transaction" where
  "set_state st t tx = tx\<lparr>state := st, lastModified := t\<rparr>"

definition modify_tx ::
  "nat \<Rightarrow> (transaction \<Rightarrow> transaction) \<Rightarrow> (nat \<times> transaction) list \<Rightarrow> (nat \<times> transaction) list" where
  "modify_tx i f txs = map (\<lambda>(k, tx). if k = i then (k, f tx) else (k, tx)) txs"

definition TransactionModel_findOne :: "nat \<Rightarrow> db \<Rightarrow> transaction option \<times> db" where
  "TransactionModel_findOne i s = (map_of (transactions s) i, s)"

text \<open>
  \<open>TransactionModel.updateOne({_id: i}, {$set: {state: st}, $currentDate: {lastModified: true}})\<close>.
\<close>

definition TransactionModel_updateOne :: "nat \<Rightarrow> tx_state \<Rightarrow> db \<Rightarrow> unit \<times> db" where
  "TransactionModel_updateOne i st s =
     ((), s\<lparr>transactions := modify_tx i (set_state st (clock s)) (transactions s)\<rparr>)"

text \<open>
  \<open>TransactionModel.findOneAndUpdate({_id: i, state: expected}, {$set: {state: st},
  $currentDate: {lastModified: true}}, {new: true})\<close>: the compare-and-swap; it returns the
  updated document, or null when no document matches.
\<close>

definition TransactionModel_findOneAndUpdate ::
  "nat \<Rightarrow> tx_state \<Rightarrow> tx_state \<Rightarrow> db \<Rightarrow> transaction option \<times> db" where
  "TransactionModel_findOneAndUpdate i expected st s =
     (case map_of (transactions s) i of
        None \<Rightarrow> (None, s)
      | Some tx \<Rightarrow>
          if state tx = expected
          then (Some (set_state st (clock s) tx),
                s\<lparr>transactions := modify_tx i (set_state st (clock s)) (transactions s)\<rparr>)
          else (None, s))"

text \<open>The store assigns a new document an id that no stored document has.\<close>

definition fresh_id :: "(nat \<times> transaction) list \<Rightarrow> nat" where
  "fresh_id txs = Suc (foldr max (map fst txs) 0)"

definition TransactionModel_create ::
  "string \<Rightarrow> string \<Rightarrow> int \<Rightarrow> db \<Rightarrow> nat \<times> db" where
  "TransactionModel_create src dst amt s =
     (fresh_id (transactions s),
      s\<lparr>transactions := transactions s @
          [(fresh_id (transactions s),
            \<lparr>source = src, destination = dst, tx_value = amt, state = Initial,
             lastModified = clock s\<rparr>)]\<rparr>)"


section \<open>The four phases\<close>

definition startTransaction :: "nat \<Rightarrow> transaction io" where
  "startTransaction transactionId =
     io_bind (await (TransactionModel_findOneAndUpdate transactionId Initial Pending))
       (\<lambda>found. case found of
          None \<Rightarrow> io_throw ''Transaction not found or already started''
        | Some tx \<Rightarrow>
            io_bind (await (AccountModel_updateOne (source tx) (\<lambda>a. True)
                              (addToSet transactionId)))
              (\<lambda>r1. io_bind (await (AccountModel_updateOne (destination tx) (\<lambda>a. True)
                                       (addToSet transactionId)))
                 (\<lambda>r2. io_return tx)))"

definition applyTransaction :: "nat \<Rightarrow> transaction io" where
  "applyTransaction transactionId =
     io_bind (await (TransactionModel_findOne transactionId))
       (\<lambda>found. case found of
          None \<Rightarrow> io_throw ''Transaction not in pending state''
        | Some tx \<Rightarrow>
            if state tx \<noteq> Pending then io_throw ''Transaction not in pending state''
            else
              io_bind (await (AccountModel_updateOne (source tx)
                                (\<lambda>a. transactionId \<in> set (pendingTransactions a)
                                     \<and> balance a \<ge> tx_value tx)
                                (inc_balance (- tx_value tx))))
                (\<lambda>modifiedCount.
                   if modifiedCount = 0
                   then io_throw ''Insufficient balance or source account not found''
                   else
                     io_bind (await (AccountModel_updateOne (destination tx)
                                       (\<lambda>a. transactionId \<in> set (pendingTransactions a))
                                       (inc_balance (tx_value tx))))
                       (\<lambda>r1. io_bind (await (TransactionModel_updateOne transactionId Applied))
                          (\<lambda>r2. io_return tx))))"

definition completeTransaction :: "nat \<Rightarrow> transaction io" where
  "completeTransaction transactionId =
     io_bind (await (TransactionModel_findOne transactionId))
       (\<lambda>found. case found of
          None \<Rightarrow> io_throw ''Transaction not in applied state''
        | Some tx \<Rightarrow>
            if state tx \<noteq> Applied then io_throw ''Transaction not in applied state''
            else
              io_bind (await (AccountModel_updateOne (source tx) (\<lambda>a. True)
                                (pull transactionId)))
                (\<lambda>r1. io_bind (await (AccountModel_updateOne (destination tx) (\<lambda>a. True)
                                         (pull transactionId)))
                   (\<lambda>r2. io_bind (await (TransactionModel_updateOne transactionId Done))
                      (\<lambda>r3. io_return tx))))"

text \<open>
  The block \<open>if (transaction.state === "applied") { ... }\<close> of \<open>cancelTransaction\<close>, on
  the document as it was read at the start of the call.
\<close>

definition reverse_if_applied :: "transaction \<Rightarrow> unit io" where
  "reverse_if_applied tx =
     (if state tx = Applied
      then io_bind (await (AccountModel_updateOne (source tx) (\<lambda>a. True)
                             (inc_balance (tx_value tx))))
             (\<lambda>r1. io_bind (await (AccountModel_updateOne (destination tx) (\<lambda>a. True)
                                      (inc_balance (- tx_value tx))))
                (\<lambda>r2. io_return ()))
      else io_return ())"

definition cancelTransaction :: "nat \<Rightarrow> transaction io" where
  "cancelTransaction transactionId =
     io_bind (await (TransactionModel_findOne transactionId))
       (\<lambda>found. case found of
          None \<Rightarrow> io_throw ''Transaction not found''
        | Some tx \<Rightarrow>
            io_bind (await (TransactionModel_updateOne transactionId Canceling))
              (\<lambda>r0. io_bind (reverse_if_applied tx)
                 (\<lambda>r1. io_bind (await (AccountModel_updateOne (source tx) (\<lambda>a. True)
                                          (pull transactionId)))
                    (\<lambda>r2. io_bind (await (AccountModel_updateOne (destination tx) (\<lambda>a. True)
                                             (pull transactionId)))
                       (\<lambda>r3. io_bind (await (TransactionModel_updateOne transactionId Canceled))
                          (\<lambda>r4. io_return tx))))))"

section \<open>High-level operations\<close>

record transfer_result =
  success :: bool
  transactionId :: nat
  message :: string

text \<open>
  The \<open>try\<close> block of \<open>executeTransfer\<close> and of \<open>executeExistingTransaction\<close>: the three
  phases in sequence, then the success object (the two functions differ in its message).
\<close>

definition try_phases :: "nat \<Rightarrow> string \<Rightarrow> transfer_result io" where
  "try_phases tid msg =
     io_bind (startTransaction tid)
       (\<lambda>r1. io_bind (applyTransaction tid)
          (\<lambda>r2. io_bind (completeTransaction tid)
             (\<lambda>r3. io_return \<lparr>success = True, transactionId = tid, message = msg\<rparr>)))"

text \<open>
  Their \<open>catch\<close> block: \<open>cancelTransaction\<close> inside its own \<open>try\<close>, whose failure is only
  written to the console, then a new error built from the message of the caught one.
\<close>

definition catch_rollback :: "nat \<Rightarrow> string \<Rightarrow> string \<Rightarrow> transfer_result io" where
  "catch_rollback tid prefix error =
     io_bind (io_catch (io_bind (cancelTransaction tid) (\<lambda>r. io_return ()))
                (\<lambda>rollbackError. console_error (''Rollback failed: '' @ rollbackError)))
       (\<lambda>r. io_throw (prefix @ error))"

text \<open>
  \<open>executeTransfer({sourceId, destId, amount, models})\<close>. A parameter that the caller left
  out is \<open>None\<close>; \<open>!sourceId\<close> holds for a missing or empty string, \<open>!amount\<close> for a missing
  or zero number.
\<close>

definition executeTransfer :: "string option \<Rightarrow> string option \<Rightarrow> int option \<Rightarrow> transfer_result io" where
  "executeTransfer sourceId destId amount =
     (case sourceId of
        None \<Rightarrow> io_throw ''sourceId, destId, and amount are required''
      | Some src \<Rightarrow>
     (case destId of
        None \<Rightarrow> io_throw ''sourceId, destId, and amount are required''
      | Some dst \<Rightarrow>
     (case amount of
        None \<Rightarrow> io_throw ''sourceId, destId, and amount are required''
      | Some amt \<Rightarrow>
          if src = [] \<or> dst = [] \<or> amt = 0
          then io_throw ''sourceId, destId, and amount are required''
          else if amt \<le> 0 then io_throw ''Amount must be positive''
          else if src = dst
          then io_throw ''Source and destination accounts cannot be the same''
          else
            io_bind (await (TransactionModel_create src dst amt))
              (\<lambda>tid. io_catch (try_phases tid ''Transfer completed successfully'')
                        (catch_rollback tid ''Transfer failed: '')))))"

definition executeExistingTransaction :: "nat \<Rightarrow> transfer_result io" where
  "executeExistingTransaction tid =
     io_catch (try_phases tid ''Transaction completed successfully'')
       (catch_rollback tid ''Transaction failed: '')"

record recovery_detail =
  d_transactionId :: nat
  d_success :: bool
  d_error :: "string option"

record recovery_result =
  recovered :: nat
  failed :: nat
  details :: "recovery_detail list"







section \<open>Auxiliary definitions for the proofs\<close>

text \<open>The effect of one \<open>AccountModel.updateOne\<close> on the Account collection.\<close>

definition acc_upd ::
  "string \<Rightarrow> (account \<Rightarrow> bool) \<Rightarrow> (account \<Rightarrow> account) \<Rightarrow>
   (string \<Rightarrow> account option) \<Rightarrow> (string \<Rightarrow> account option)" where
  "acc_upd aid flt f m =
     (case m aid of None \<Rightarrow> m | Some a \<Rightarrow> if flt a then m(aid \<mapsto> f a) else m)"

text \<open>
  The scenario of the specification: account \<open>A\<close> holds 2500, account \<open>B\<close> holds 100, no
  transaction yet, no store failure.
\<close>

definition example_bank :: db where
  "example_bank =
     \<lparr>accounts = [''A'' \<mapsto> \<lparr>balance = 2500, pendingTransactions = []\<rparr>,
                  ''B'' \<mapsto> \<lparr>balance = 100, pendingTransactions = []\<rparr>],
      transactions = [], clock = 1000, console = [], faults = []\<rparr>"

text \<open>The same store when account \<open>A\<close> does not exist.\<close>

definition bank_without_source :: db where
  "bank_without_source =
     \<lparr>accounts = [''B'' \<mapsto> \<lparr>balance = 100, pendingTransactions = []\<rparr>],
      transactions = [], clock = 1000, console = [], faults = []\<rparr>"

text \<open>
  One transfer of 500 from \<open>A\<close> to \<open>B\<close> at each stage of its life: the document with id 7
  in state \<open>initial\<close>, \<open>pending\<close>, \<open>applied\<close> and \<open>done\<close>, the accounts as the phases leave
  them.
\<close>

definition example_tx :: "tx_state \<Rightarrow> transaction" where
  "example_tx st =
     \<lparr>source = ''A'', destination = ''B'', tx_value = 500, state = st, lastModified = 900\<rparr>"




definition example_done :: db where
  "example_done =
     \<lparr>accounts = [''A'' \<mapsto> \<lparr>balance = 2000, pendingTransactions = []\<rparr>,
                  ''B'' \<mapsto> \<lparr>balance = 600, pendingTransactions = []\<rparr>],
      transactions = [(7, example_tx Done)], clock = 1000, console = [], faults = []\<rparr>"

text \<open>
  The store \<open>example_bank\<close> with a schedule of store failures: the first six store calls
  succeed, the seventh is rejected.
\<close>

definition flaky_bank :: db where
  "flaky_bank = example_bank\<lparr>faults := [None, None, None, None, None, None,
                                        Some ''connection lost'']\<rparr>"







section \<open>Store operations without failures\<close>

lemma acc_upd_apply:
  "acc_upd aid flt f m b =
     (if b = aid
      then (case m aid of None \<Rightarrow> None | Some a \<Rightarrow> Some (if flt a then f a else a))
      else m b)"
  by (simp add: acc_upd_def split: option.splits)

lemma await_nofault: "faults s = [] \<Longrightarrow> await call s = (Inr (fst (call s)), snd (call s))"
  by (simp add: await_def split: prod.splits)

lemma snd_AccountModel_updateOne:
  "snd (AccountModel_updateOne aid flt f s) = s\<lparr>accounts := acc_upd aid flt f (accounts s)\<rparr>"
  by (simp add: AccountModel_updateOne_def acc_upd_def split: option.splits)


lemma map_of_modify_tx:
  "map_of (modify_tx i f txs) k = (if k = i then map_option f (map_of txs i) else map_of txs k)"
  by (induction txs) (auto simp: modify_tx_def)

lemma keys_modify_tx: "map fst (modify_tx i f txs) = map fst txs"
  by (induction txs) (auto simp: modify_tx_def)

lemma modify_tx_twice: "modify_tx i f (modify_tx i g txs) = modify_tx i (\<lambda>tx. f (g tx)) txs"
  by (induction txs) (auto simp: modify_tx_def)

lemma set_state_twice: "set_state st t (set_state st' t' tx) = set_state st t tx"
  by (simp add: set_state_def)

lemma fresh_id_greater: "(k, tx) \<in> set txs \<Longrightarrow> k < fresh_id txs"
  by (induction txs) (auto simp: fresh_id_def)

lemma map_of_fresh_id: "map_of txs (fresh_id txs) = None"
proof (cases "map_of txs (fresh_id txs)")
  case (Some tx)
  then have "(fresh_id txs, tx) \<in> set txs" by (rule map_of_SomeD)
  then show ?thesis using fresh_id_greater by blast
qed simp


lemma balance_addToSet: "balance (addToSet i a) = balance a"
  by (simp add: addToSet_def)

lemma balance_pull: "balance (pull i a) = balance a"
  by (simp add: pull_def)





section \<open>The phases without store failures\<close>

lemma startTransaction_nofault:
  "faults s = [] \<Longrightarrow>
   startTransaction i s =
     (case map_of (transactions s) i of
        None \<Rightarrow> (Inl ''Transaction not found or already started'', s)
      | Some tx \<Rightarrow>
          if state tx = Initial
          then (Inr (set_state Pending (clock s) tx),
                s\<lparr>transactions := modify_tx i (set_state Pending (clock s)) (transactions s),
                  accounts := acc_upd (destination tx) (\<lambda>a. True) (addToSet i)
                                (acc_upd (source tx) (\<lambda>a. True) (addToSet i) (accounts s))\<rparr>)
          else (Inl ''Transaction not found or already started'', s))"
  by (simp add: startTransaction_def io_bind_def io_throw_def io_return_def await_nofault
        TransactionModel_findOneAndUpdate_def snd_AccountModel_updateOne set_state_def
      split: option.splits prod.splits sum.splits)


lemma applyTransaction_unfunded:
  assumes "faults s = []" "map_of (transactions s) i = Some tx" "state tx = Pending"
    "case accounts s (source tx) of None \<Rightarrow> True
     | Some a \<Rightarrow> i \<notin> set (pendingTransactions a) \<or> balance a < tx_value tx"
  shows "applyTransaction i s = (Inl ''Insufficient balance or source account not found'', s)"
  using assms
  by (auto simp add: applyTransaction_def io_bind_def io_throw_def io_return_def await_nofault
        TransactionModel_findOne_def AccountModel_updateOne_def
      split: prod.splits sum.splits option.splits)




lemma cancelTransaction_nofault:
  assumes "faults s = []" "map_of (transactions s) i = Some tx"
  shows "cancelTransaction i s =
     (Inr tx,
      s\<lparr>accounts := acc_upd (destination tx) (\<lambda>a. True) (pull i)
                       (acc_upd (source tx) (\<lambda>a. True) (pull i)
                          (if state tx = Applied
                           then acc_upd (destination tx) (\<lambda>a. True) (inc_balance (- tx_value tx))
                                  (acc_upd (source tx) (\<lambda>a. True) (inc_balance (tx_value tx))
                                     (accounts s))
                           else accounts s)),
        transactions := modify_tx i (set_state Canceled (clock s)) (transactions s)\<rparr>)"
  using assms
  by (simp add: cancelTransaction_def reverse_if_applied_def io_bind_def io_throw_def
        io_return_def await_nofault
        TransactionModel_findOne_def TransactionModel_updateOne_def
        snd_AccountModel_updateOne modify_tx_twice set_state_twice
      split: prod.splits sum.splits)

lemma cancelTransaction_missing:
  assumes "faults s = []" "map_of (transactions s) i = None"
  shows "cancelTransaction i s = (Inl ''Transaction not found'', s)"
  using assms
  by (simp add: cancelTransaction_def io_bind_def io_throw_def await_nofault
        TransactionModel_findOne_def)

text \<open>
  Creating the Transaction document and reserving it: what \<open>executeTransfer\<close> has done
  when it reaches the Apply phase.
\<close>

lemma create_start_nofault:
  assumes "faults s = []"
  shows "\<exists>s0 s1 tx1.
      await (TransactionModel_create src dst amt) s = (Inr (fresh_id (transactions s)), s0)
    \<and> startTransaction (fresh_id (transactions s)) s0 = (Inr tx1, s1)
    \<and> faults s1 = [] \<and> clock s1 = clock s \<and> console s1 = console s
    \<and> map_of (transactions s1) (fresh_id (transactions s)) = Some tx1
    \<and> source tx1 = src \<and> destination tx1 = dst \<and> tx_value tx1 = amt \<and> state tx1 = Pending
    \<and> accounts s1 = acc_upd dst (\<lambda>a. True) (addToSet (fresh_id (transactions s)))
                      (acc_upd src (\<lambda>a. True) (addToSet (fresh_id (transactions s)))
                         (accounts s))"
proof -
  define tid where "tid = fresh_id (transactions s)"
  define tx0 where "tx0 = \<lparr>source = src, destination = dst, tx_value = amt, state = Initial,
             lastModified = clock s\<rparr>"
  define s0 where "s0 = s\<lparr>transactions := transactions s @ [(tid, tx0)]\<rparr>"
  have create_eq: "await (TransactionModel_create src dst amt) s = (Inr tid, s0)"
    using assms by (simp add: await_nofault TransactionModel_create_def tid_def s0_def tx0_def)
  have tx0: "source tx0 = src" "destination tx0 = dst" "tx_value tx0 = amt" "state tx0 = Initial"
    by (simp_all add: tx0_def)
  have s0: "faults s0 = []" "map_of (transactions s0) tid = Some tx0" "accounts s0 = accounts s"
    "clock s0 = clock s" "console s0 = console s"
    by (simp_all add: s0_def assms tid_def map_add_def map_of_fresh_id)
  define tx1 where "tx1 = set_state Pending (clock s0) tx0"
  define s1 where
    "s1 = s0\<lparr>transactions := modify_tx tid (set_state Pending (clock s0)) (transactions s0),
             accounts := acc_upd (destination tx0) (\<lambda>a. True) (addToSet tid)
                           (acc_upd (source tx0) (\<lambda>a. True) (addToSet tid) (accounts s0))\<rparr>"
  have start_eq: "startTransaction tid s0 = (Inr tx1, s1)"
    using s0 tx0 by (simp add: startTransaction_nofault s1_def tx1_def)
  have tx1: "source tx1 = src" "destination tx1 = dst" "tx_value tx1 = amt" "state tx1 = Pending"
    by (simp_all add: tx1_def tx0 set_state_def)
  have s1: "faults s1 = []" "clock s1 = clock s" "console s1 = console s"
    "map_of (transactions s1) tid = Some tx1"
    "accounts s1 = acc_upd dst (\<lambda>a. True) (addToSet tid)
                     (acc_upd src (\<lambda>a. True) (addToSet tid) (accounts s))"
    by (simp_all add: s1_def s0 map_of_modify_tx tx1_def tx0)
  show ?thesis
    unfolding tid_def [symmetric]
    using create_eq start_eq s1 tx1 by blast
qed

section \<open>A whole transfer\<close>



text \<open>
  The path that C2 and C10 share: the debit of the Apply phase matches no document, the
  \<open>catch\<close> block cancels the reserved transaction.
\<close>

lemma executeTransfer_unfunded:
  assumes nofault: "faults s = []"
    and ids: "src \<noteq> []" "dst \<noteq> []" "src \<noteq> dst"
    and amt: "0 < amt"
    and unfunded: "case accounts s src of None \<Rightarrow> True | Some a \<Rightarrow> balance a < amt"
  shows "\<exists>s0 s1 tx1 s'.
      await (TransactionModel_create src dst amt) s = (Inr (fresh_id (transactions s)), s0)
    \<and> startTransaction (fresh_id (transactions s)) s0 = (Inr tx1, s1)
    \<and> applyTransaction (fresh_id (transactions s)) s1 =
        (Inl ''Insufficient balance or source account not found'', s1)
    \<and> executeTransfer (Some src) (Some dst) (Some amt) s =
        (Inl ''Transfer failed: Insufficient balance or source account not found'', s')
    \<and> (\<forall>a. map_option balance (accounts s' a) = map_option balance (accounts s a))
    \<and> map_option state (map_of (transactions s') (fresh_id (transactions s))) = Some Canceled
    \<and> console s' = console s"
proof -
  define tid where "tid = fresh_id (transactions s)"
  obtain s0 s1 tx1 where create_eq: "await (TransactionModel_create src dst amt) s = (Inr tid, s0)"
    and start_eq: "startTransaction tid s0 = (Inr tx1, s1)"
    and s1: "faults s1 = []" "map_of (transactions s1) tid = Some tx1" "console s1 = console s"
    and tx1: "source tx1 = src" "destination tx1 = dst" "tx_value tx1 = amt" "state tx1 = Pending"
    and acc1: "accounts s1 = acc_upd dst (\<lambda>a. True) (addToSet tid)
                               (acc_upd src (\<lambda>a. True) (addToSet tid) (accounts s))"
    unfolding tid_def using create_start_nofault [OF nofault, of src dst amt] by blast
  have "case accounts s1 (source tx1) of None \<Rightarrow> True
        | Some a \<Rightarrow> tid \<notin> set (pendingTransactions a) \<or> balance a < tx_value tx1"
    using unfunded ids
    by (simp add: acc1 tx1 acc_upd_apply balance_addToSet split: option.splits)
  then have apply_eq: "applyTransaction tid s1 =
      (Inl ''Insufficient balance or source account not found'', s1)"
    using s1 tx1 by (simp add: applyTransaction_unfunded)
  define s4 where
    "s4 = s1\<lparr>accounts := acc_upd (destination tx1) (\<lambda>a. True) (pull tid)
                       (acc_upd (source tx1) (\<lambda>a. True) (pull tid)
                          (if state tx1 = Applied
                           then acc_upd (destination tx1) (\<lambda>a. True) (inc_balance (- tx_value tx1))
                                  (acc_upd (source tx1) (\<lambda>a. True) (inc_balance (tx_value tx1))
                                     (accounts s1))
                           else accounts s1)),
        transactions := modify_tx tid (set_state Canceled (clock s1)) (transactions s1)\<rparr>"
  have cancel_eq: "cancelTransaction tid s1 = (Inr tx1, s4)"
    using s1 by (simp add: cancelTransaction_nofault s4_def)
  have run: "executeTransfer (Some src) (Some dst) (Some amt) s =
        (Inl ''Transfer failed: Insufficient balance or source account not found'', s4)"
    using ids amt
    by (simp add: executeTransfer_def io_bind_def io_catch_def try_phases_def
          catch_rollback_def io_return_def io_throw_def
          create_eq start_eq apply_eq cancel_eq)
  have bal: "map_option balance (accounts s4 a) = map_option balance (accounts s a)" for a
    by (simp add: s4_def tx1 acc1 acc_upd_apply balance_pull balance_addToSet
          split: option.splits)
  have st: "map_option state (map_of (transactions s4) tid) = Some Canceled"
    by (simp add: s4_def s1 map_of_modify_tx set_state_def)
  have "console s4 = console s" by (simp add: s4_def s1)
  with create_eq start_eq apply_eq run bal st show ?thesis
    unfolding tid_def [symmetric] by blast
qed

text \<open>
  C2. A transfer of more than the source account holds (inputs otherwise valid, no store
  failure): the call fails with \<open>Transfer failed:\<close> followed by the message of the
  insufficient-funds branch of the Apply phase, the balances of the source and of the
  destination are what they were, and the transaction document ends in state \<open>canceled\<close>.
\<close>

theorem executeTransfer_insufficient_funds:
  assumes nofault: "faults s = []"
    and ids: "src \<noteq> []" "dst \<noteq> []" "src \<noteq> dst"
    and amt: "0 < amt"
    and sa: "accounts s src = Some sa"
    and short: "balance sa < amt"
    and run: "executeTransfer (Some src) (Some dst) (Some amt) s = (r, s')"
  shows "r = Inl ''Transfer failed: Insufficient balance or source account not found''
       \<and> map_option balance (accounts s' src) = Some (balance sa)
       \<and> map_option balance (accounts s' dst) = map_option balance (accounts s dst)
       \<and> map_option state (map_of (transactions s') (fresh_id (transactions s))) = Some Canceled"
proof -
  from sa short have "case accounts s src of None \<Rightarrow> True | Some a \<Rightarrow> balance a < amt"
    by simp
  from executeTransfer_unfunded [OF nofault ids amt this]
  obtain s4 where run4: "executeTransfer (Some src) (Some dst) (Some amt) s =
        (Inl ''Transfer failed: Insufficient balance or source account not found'', s4)"
    and bal: "\<And>a. map_option balance (accounts s4 a) = map_option balance (accounts s a)"
    and st: "map_option state (map_of (transactions s4) (fresh_id (transactions s))) = Some Canceled"
    by blast
  from run run4 have "r = Inl ''Transfer failed: Insufficient balance or source account not found''"
    and "s' = s4" by simp_all
  then show ?thesis using bal [of src] bal [of dst] st sa by simp
qed

theorem executeTransfer_insufficient_funds_witness:
  "fst (executeTransfer (Some ''A'') (Some ''B'') (Some 3000) example_bank) =
     Inl ''Transfer failed: Insufficient balance or source account not found''
   \<and> map_option balance
       (accounts (snd (executeTransfer (Some ''A'') (Some ''B'') (Some 3000) example_bank)) ''A'')
     = Some 2500
   \<and> map_option balance
       (accounts (snd (executeTransfer (Some ''A'') (Some ''B'') (Some 3000) example_bank)) ''B'')
     = Some 100
   \<and> map_option state
       (map_of (transactions
          (snd (executeTransfer (Some ''A'') (Some ''B'') (Some 3000) example_bank))) 1)
     = Some Canceled"
  using executeTransfer_insufficient_funds [of example_bank "''A''" "''B''" 3000
      "\<lparr>balance = 2500, pendingTransactions = []\<rparr>"
      "fst (executeTransfer (Some ''A'') (Some ''B'') (Some 3000) example_bank)"
      "snd (executeTransfer (Some ''A'') (Some ''B'') (Some 3000) example_bank)"]
  by (simp add: example_bank_def fresh_id_def)

text \<open>
  C10. A transfer whose source account does not exist (inputs otherwise valid, no store
  failure): creating the document and the Reserve phase succeed, since the
  \<open>$addToSet\<close> updates of Reserve are not checked for a matched document; the Apply phase
  is the first to fail, through the branch that also reports insufficient funds; the
  call fails with that message behind \<open>Transfer failed:\<close> and the transaction document
  ends in state \<open>canceled\<close>.
\<close>

theorem executeTransfer_missing_source:
  assumes nofault: "faults s = []"
    and ids: "src \<noteq> []" "dst \<noteq> []" "src \<noteq> dst"
    and amt: "0 < amt"
    and missing: "accounts s src = None"
    and created: "await (TransactionModel_create src dst amt) s = (r0, s0)"
    and reserved: "startTransaction (fresh_id (transactions s)) s0 = (r1, s1)"
    and applied: "applyTransaction (fresh_id (transactions s)) s1 = (r2, s2)"
    and run: "executeTransfer (Some src) (Some dst) (Some amt) s = (r, s')"
  shows "r0 = Inr (fresh_id (transactions s))
       \<and> (\<exists>tx. r1 = Inr tx)
       \<and> r2 = Inl ''Insufficient balance or source account not found''
       \<and> r = Inl ''Transfer failed: Insufficient balance or source account not found''
       \<and> map_option state (map_of (transactions s') (fresh_id (transactions s))) = Some Canceled"
proof -
  from missing have "case accounts s src of None \<Rightarrow> True | Some a \<Rightarrow> balance a < amt"
    by simp
  from executeTransfer_unfunded [OF nofault ids amt this]
  obtain t0 t1 tx1 s4 where
      "await (TransactionModel_create src dst amt) s = (Inr (fresh_id (transactions s)), t0)"
    and "startTransaction (fresh_id (transactions s)) t0 = (Inr tx1, t1)"
    and "applyTransaction (fresh_id (transactions s)) t1 =
           (Inl ''Insufficient balance or source account not found'', t1)"
    and "executeTransfer (Some src) (Some dst) (Some amt) s =
           (Inl ''Transfer failed: Insufficient balance or source account not found'', s4)"
    and "map_option state (map_of (transactions s4) (fresh_id (transactions s))) = Some Canceled"
    by blast
  with created reserved applied run show ?thesis by simp
qed


theorem executeTransfer_missing_source_witness:
  "fst (startTransaction 1 (snd (await (TransactionModel_create ''A'' ''B'' 500) bank_without_source)))
     = Inr \<lparr>source = ''A'', destination = ''B'', tx_value = 500, state = Pending, lastModified = 1000\<rparr>
   \<and> fst (executeTransfer (Some ''A'') (Some ''B'') (Some 500) bank_without_source) =
     Inl ''Transfer failed: Insufficient balance or source account not found''
   \<and> map_option state
       (map_of (transactions
          (snd (executeTransfer (Some ''A'') (Some ''B'') (Some 500) bank_without_source))) 1)
     = Some Canceled"
  using executeTransfer_missing_source [of bank_without_source "''A''" "''B''" 500
      "fst (await (TransactionModel_create ''A'' ''B'' 500) bank_without_source)"
      "snd (await (TransactionModel_create ''A'' ''B'' 500) bank_without_source)"
      "fst (startTransaction 1 (snd (await (TransactionModel_create ''A'' ''B'' 500) bank_without_source)))"
      "snd (startTransaction 1 (snd (await (TransactionModel_create ''A'' ''B'' 500) bank_without_source)))"
      "fst (applyTransaction 1 (snd (startTransaction 1 (snd (await (TransactionModel_create ''A'' ''B'' 500) bank_without_source)))))"
      "snd (applyTransaction 1 (snd (startTransaction 1 (snd (await (TransactionModel_create ''A'' ''B'' 500) bank_without_source)))))"
      "fst (executeTransfer (Some ''A'') (Some ''B'') (Some 500) bank_without_source)"
      "snd (executeTransfer (Some ''A'') (Some ''B'') (Some 500) bank_without_source)"]
  by (simp add: bank_without_source_def fresh_id_def await_nofault TransactionModel_create_def
        startTransaction_nofault set_state_def)

text \<open>
  C9. A call of \<open>executeTransfer\<close> with a missing (or empty) source or destination id, a
  missing amount, an amount that is zero or negative, or equal source and destination
  ids fails with one of the three validation messages, and the store is exactly what it
  was: no Transaction document is created, no document is modified, no store call is
  made.
\<close>

theorem executeTransfer_validation:
  assumes invalid: "sourceId = None \<or> sourceId = Some [] \<or> destId = None \<or> destId = Some []
      \<or> amount = None \<or> (\<exists>amt. amount = Some amt \<and> amt \<le> 0) \<or> sourceId = destId"
  shows "executeTransfer sourceId destId amount s \<in>
     {(Inl ''sourceId, destId, and amount are required'', s),
      (Inl ''Amount must be positive'', s),
      (Inl ''Source and destination accounts cannot be the same'', s)}"
  using invalid
  by (auto simp: executeTransfer_def io_throw_def split: option.splits)

theorem executeTransfer_validation_witness:
  "executeTransfer (Some ''A'') (Some ''B'') (Some (- 5)) example_bank
     = (Inl ''Amount must be positive'', example_bank)
   \<and> executeTransfer (Some ''A'') (Some ''A'') (Some 5) example_bank
     = (Inl ''Source and destination accounts cannot be the same'', example_bank)
   \<and> executeTransfer None (Some ''B'') (Some 5) example_bank
     = (Inl ''sourceId, destId, and amount are required'', example_bank)
   \<and> executeTransfer (Some ''A'') (Some ''B'') (Some 0) example_bank
     = (Inl ''sourceId, destId, and amount are required'', example_bank)"
  using executeTransfer_validation [of "Some ''A''" "Some ''B''" "Some (- 5)" example_bank]
    executeTransfer_validation [of "Some ''A''" "Some ''A''" "Some 5" example_bank]
    executeTransfer_validation [of None "Some ''B''" "Some 5" example_bank]
    executeTransfer_validation [of "Some ''A''" "Some ''B''" "Some 0" example_bank]
  by (simp add: executeTransfer_def io_throw_def)

section \<open>Single phases\<close>










text \<open>
  C3. The state of a transaction does not only move forward: \<open>cancelTransaction\<close> checks no
  state, so \<open>executeExistingTransaction\<close> on a transaction that is \<open>done\<close> fails in the
  Reserve phase and then cancels it. The document goes from \<open>done\<close> to \<open>canceled\<close>, although
  the money has moved and stays moved.
\<close>

theorem done_transaction_gets_canceled:
  "map_option state (map_of (transactions example_done) 7) = Some Done
   \<and> fst (executeExistingTransaction 7 example_done)
       = Inl ''Transaction failed: Transaction not found or already started''
   \<and> map_option state
       (map_of (transactions (snd (executeExistingTransaction 7 example_done))) 7) = Some Canceled
   \<and> map_option balance (accounts (snd (executeExistingTransaction 7 example_done)) ''A'')
       = Some 2000
   \<and> map_option balance (accounts (snd (executeExistingTransaction 7 example_done)) ''B'')
       = Some 600"
proof -
  have f: "faults example_done = []" "map_of (transactions example_done) 7 = Some (example_tx Done)"
    by (simp_all add: example_done_def)
  have 1: "startTransaction 7 example_done =
      (Inl ''Transaction not found or already started'', example_done)"
    by (simp add: startTransaction_nofault f example_tx_def)
  show ?thesis
    by (simp add: executeExistingTransaction_def io_catch_def try_phases_def io_bind_def 1
          catch_rollback_def cancelTransaction_nofault [OF f] io_return_def io_throw_def
          map_of_modify_tx f set_state_def acc_upd_apply balance_pull)
       (simp add: example_done_def example_tx_def balance_pull)
qed





section \<open>Failures of the store\<close>

text \<open>
  C8. Whatever the store does: once the Transaction document is created, when Reserve,
  Apply or Finalize fails with message \<open>e\<close>, \<open>cancelTransaction\<close> is run on the state the
  failing phase left, and \<open>executeTransfer\<close> fails with \<open>Transfer failed:\<close> followed by
  \<open>e\<close>. When \<open>cancelTransaction\<close> fails too, its message only goes to the console.
\<close>

theorem executeTransfer_surfaces_phase_error:
  assumes valid: "src \<noteq> []" "dst \<noteq> []" "0 < amt" "src \<noteq> dst"
    and created: "await (TransactionModel_create src dst amt) s = (Inr tid, s0)"
    and failed: "startTransaction tid s0 = (Inl e, s1)
       \<or> (\<exists>t sa. startTransaction tid s0 = (Inr t, sa) \<and> applyTransaction tid sa = (Inl e, s1))
       \<or> (\<exists>t sa t' sb. startTransaction tid s0 = (Inr t, sa)
              \<and> applyTransaction tid sa = (Inr t', sb)
              \<and> completeTransaction tid sb = (Inl e, s1))"
    and compensated: "cancelTransaction tid s1 = (rc, s2)"
  shows "executeTransfer (Some src) (Some dst) (Some amt) s =
           (Inl (''Transfer failed: '' @ e),
            case rc of Inr tx \<Rightarrow> s2
            | Inl e' \<Rightarrow> s2\<lparr>console := console s2 @ [''Rollback failed: '' @ e']\<rparr>)"
proof -
  from failed have "try_phases tid ''Transfer completed successfully'' s0 = (Inl e, s1)"
    by (auto simp: try_phases_def io_bind_def)
  with valid created compensated show ?thesis
    by (simp add: executeTransfer_def io_bind_def io_catch_def catch_rollback_def
          console_error_def io_throw_def io_return_def split: sum.splits)
qed

lemmas eval_defs = flaky_bank_def example_bank_def await_def TransactionModel_create_def
  fresh_id_def startTransaction_def io_bind_def io_throw_def io_return_def
  TransactionModel_findOneAndUpdate_def AccountModel_updateOne_def addToSet_def set_state_def
  modify_tx_def applyTransaction_def TransactionModel_findOne_def inc_balance_def
  cancelTransaction_def

theorem executeTransfer_surfaces_phase_error_witness:
  "fst (executeTransfer (Some ''A'') (Some ''B'') (Some 3000) flaky_bank)
     = Inl ''Transfer failed: Insufficient balance or source account not found''
   \<and> console (snd (executeTransfer (Some ''A'') (Some ''B'') (Some 3000) flaky_bank))
     = [''Rollback failed: connection lost'']"
proof -
  define S0 where "S0 = snd (await (TransactionModel_create ''A'' ''B'' 3000) flaky_bank)"
  define SA where "SA = snd (startTransaction 1 S0)"
  define S1 where "S1 = snd (applyTransaction 1 SA)"
  define S2 where "S2 = snd (cancelTransaction 1 S1)"
  have "fst (await (TransactionModel_create ''A'' ''B'' 3000) flaky_bank) = Inr 1"
    by (simp add: eval_defs)
  then have h0: "await (TransactionModel_create ''A'' ''B'' 3000) flaky_bank = (Inr 1, S0)"
    by (simp add: S0_def prod_eq_iff)
  have "fst (startTransaction 1 S0) =
      Inr \<lparr>source = ''A'', destination = ''B'', tx_value = 3000, state = Pending,
            lastModified = 1000\<rparr>"
    by (simp add: S0_def eval_defs)
  then have h1: "startTransaction 1 S0 =
      (Inr \<lparr>source = ''A'', destination = ''B'', tx_value = 3000, state = Pending,
            lastModified = 1000\<rparr>, SA)"
    by (simp add: SA_def prod_eq_iff)
  have "fst (applyTransaction 1 SA) = Inl ''Insufficient balance or source account not found''"
    by (simp add: SA_def S0_def eval_defs)
  then have h2: "applyTransaction 1 SA =
      (Inl ''Insufficient balance or source account not found'', S1)"
    by (simp add: S1_def prod_eq_iff)
  have "fst (cancelTransaction 1 S1) = Inl ''connection lost''"
    and c2: "console S2 = []"
    by (simp_all add: S2_def S1_def SA_def S0_def eval_defs)
  then have h3: "cancelTransaction 1 S1 = (Inl ''connection lost'', S2)"
    by (simp add: S2_def prod_eq_iff)
  have "executeTransfer (Some ''A'') (Some ''B'') (Some 3000) flaky_bank =
      (Inl (''Transfer failed: '' @ ''Insufficient balance or source account not found''),
       case (Inl ''connection lost'' :: string + transaction) of Inr tx \<Rightarrow> S2
       | Inl e' \<Rightarrow> S2\<lparr>console := console S2 @ [''Rollback failed: '' @ e']\<rparr>)"
    by (rule executeTransfer_surfaces_phase_error [OF _ _ _ _ h0 _ h3])
       (use h1 h2 in \<open>simp_all\<close>)
  then show ?thesis by (simp add: c2)
qed

section \<open>The balance projection\<close>




section \<open>The recovery sweep\<close>

















end
